theory Spec2Isabelle
  imports Complex_Main
begin

section \<open>Numbers and rectangles\<close>

text \<open>
  The program \<^verbatim>\<open>tekken_like.py\<close> mixes Python integers (rectangle coordinates,
  frame counters, damage) with Python floats (velocity, health, the round clock).
  Integers are modelled as \<^typ>\<open>int\<close>. Floats are modelled as \<^typ>\<open>real\<close>: the
  model computes with the exact value where the program computes with the nearest
  double. Every theorem below is a statement about this exact arithmetic.

  \<^verbatim>\<open>int(v)\<close> on a float truncates toward zero.
\<close>

definition py_int :: "real \<Rightarrow> int" where
  "py_int v = (if 0 \<le> v then \<lfloor>v\<rfloor> else \<lceil>v\<rceil>)"

text \<open>\<^verbatim>\<open>def clamp(v, lo, hi): return max(lo, min(hi, v))\<close>\<close>

definition clamp :: "real \<Rightarrow> real \<Rightarrow> real \<Rightarrow> real" where
  "clamp v lo hi = max lo (min hi v)"

text \<open>\<^verbatim>\<open>def sign(x): return -1 if x < 0 else (1 if x > 0 else 0)\<close>\<close>

definition sign :: "int \<Rightarrow> int" where
  "sign v = (if v < 0 then - 1 else (if v > 0 then 1 else 0))"

text \<open>
  \<^verbatim>\<open>pygame.Rect\<close> holds four integers \<open>x, y, w, h\<close>; the origin is top-left and
  \<open>y\<close> grows downward. The attributes the program reads and assigns are derived
  from them as the library documents: \<open>left = x\<close>, \<open>top = y\<close>, \<open>right = x + w\<close>,
  \<open>bottom = y + h\<close>, \<open>centerx = x + w // 2\<close>, \<open>centery = y + h // 2\<close>; assigning
  \<open>right\<close>, \<open>bottom\<close>, \<open>topleft\<close> or \<open>topright\<close> moves the rectangle and keeps its
  size.
\<close>

record Rect =
  rx :: int
  ry :: int
  rw :: int
  rh :: int

definition mk_rect :: "int \<Rightarrow> int \<Rightarrow> int \<Rightarrow> int \<Rightarrow> Rect" where
  "mk_rect a b c d = \<lparr>rx = a, ry = b, rw = c, rh = d\<rparr>"

definition left :: "Rect \<Rightarrow> int" where
  "left r = rx r"

definition right :: "Rect \<Rightarrow> int" where
  "right r = rx r + rw r"

definition bottom :: "Rect \<Rightarrow> int" where
  "bottom r = ry r + rh r"

definition centerx :: "Rect \<Rightarrow> int" where
  "centerx r = rx r + rw r div 2"

definition centery :: "Rect \<Rightarrow> int" where
  "centery r = ry r + rh r div 2"

definition set_left :: "int \<Rightarrow> Rect \<Rightarrow> Rect" where
  "set_left v r = r\<lparr>rx := v\<rparr>"

definition set_right :: "int \<Rightarrow> Rect \<Rightarrow> Rect" where
  "set_right v r = r\<lparr>rx := v - rw r\<rparr>"

definition set_bottom :: "int \<Rightarrow> Rect \<Rightarrow> Rect" where
  "set_bottom v r = r\<lparr>ry := v - rh r\<rparr>"

definition set_topleft :: "int \<times> int \<Rightarrow> Rect \<Rightarrow> Rect" where
  "set_topleft p r = r\<lparr>rx := fst p, ry := snd p\<rparr>"

definition set_topright :: "int \<times> int \<Rightarrow> Rect \<Rightarrow> Rect" where
  "set_topright p r = r\<lparr>rx := fst p - rw r, ry := snd p\<rparr>"

text \<open>
  \<^verbatim>\<open>Rect.colliderect\<close>: a rectangle of zero width or height collides with nothing;
  otherwise the two spans must overlap strictly on both axes (touching edges do not
  collide).
\<close>

definition colliderect :: "Rect \<Rightarrow> Rect \<Rightarrow> bool" where
  "colliderect a b =
     (if rw a = 0 \<or> rh a = 0 \<or> rw b = 0 \<or> rh b = 0 then False
      else min (rx a) (rx a + rw a) < max (rx b) (rx b + rw b)
         \<and> min (ry a) (ry a + rh a) < max (ry b) (ry b + rh b)
         \<and> max (rx a) (rx a + rw a) > min (rx b) (rx b + rw b)
         \<and> max (ry a) (ry a + rh a) > min (ry b) (ry b + rh b))"

text \<open>
  \<^verbatim>\<open>Rect.clip\<close>: the part of \<open>a\<close> that lies inside \<open>b\<close>; a rectangle of size zero
  at \<open>a\<close>'s position when they do not overlap. Each axis is clipped on its own:
  the start is the larger of the two starts, the extent reaches to the smaller of
  the two ends.
\<close>

definition clip_axis :: "int \<Rightarrow> int \<Rightarrow> int \<Rightarrow> int \<Rightarrow> (int \<times> int) option" where
  "clip_axis a al b bl =
     (let start =
        (if a \<ge> b \<and> a < b + bl then Some a
         else if b \<ge> a \<and> b < a + al then Some b
         else None)
      in case start of
           None \<Rightarrow> None
         | Some s \<Rightarrow>
             (if a + al > b \<and> a + al \<le> b + bl then Some (s, a + al - s)
              else if b + bl > a \<and> b + bl \<le> a + al then Some (s, b + bl - s)
              else None))"

definition clip :: "Rect \<Rightarrow> Rect \<Rightarrow> Rect" where
  "clip a b =
     (case clip_axis (rx a) (rw a) (rx b) (rw b) of
        None \<Rightarrow> mk_rect (rx a) (ry a) 0 0
      | Some (cx, cw) \<Rightarrow>
          (case clip_axis (ry a) (rh a) (ry b) (rh b) of
             None \<Rightarrow> mk_rect (rx a) (ry a) 0 0
           | Some (cy, ch) \<Rightarrow> mk_rect cx cy cw ch))"

text \<open>A \<^verbatim>\<open>Rect\<close> is truthy when both its width and its height are non-zero.\<close>

definition rect_bool :: "Rect \<Rightarrow> bool" where
  "rect_bool r = (rw r \<noteq> 0 \<and> rh r \<noteq> 0)"

section \<open>Configuration\<close>

definition WIDTH :: int where "WIDTH = 1000"
definition HEIGHT :: int where "HEIGHT = 560"
definition GROUND_Y :: int where "GROUND_Y = HEIGHT - 90"

definition GRAVITY :: real where "GRAVITY = 0.85"
definition FRICTION :: real where "FRICTION = 0.85"
definition MOVE_SPEED :: real where "MOVE_SPEED = 6.0"
definition JUMP_SPEED :: real where "JUMP_SPEED = - 16.5"
definition MAX_FALL :: real where "MAX_FALL = 18"

definition PUSHBACK :: int where "PUSHBACK = 7"
definition BLOCK_PUSHBACK :: int where "BLOCK_PUSHBACK = 4"
definition HITSTOP :: int where "HITSTOP = 4"

definition PUNCH_RANGE :: "int \<times> int" where "PUNCH_RANGE = (45, 16)"
definition KICK_RANGE :: "int \<times> int" where "KICK_RANGE = (60, 18)"
definition PUNCH_DMG :: int where "PUNCH_DMG = 8"
definition KICK_DMG :: int where "KICK_DMG = 12"
definition BLOCK_CHIP :: real where "BLOCK_CHIP = 0.2"

definition ROUND_TIME :: real where "ROUND_TIME = 60"
definition BEST_OF :: int where "BEST_OF = 3"

text \<open>
  The key table \<^verbatim>\<open>KEYS\<close>. A snapshot of the keyboard is a predicate on keys; the
  table maps a player and an intent to the key that is read.
\<close>

datatype key =
    K_a | K_d | K_w | K_s | K_j | K_k | K_l
  | K_LEFT | K_RIGHT | K_UP | K_DOWN | K_KP1 | K_KP2 | K_RSHIFT
  | K_1 | K_2 | K_3

datatype player = P1 | P2

datatype intent =
    I_left | I_right | I_up | I_down | I_punch | I_kick | I_block
  | I_punch_alt | I_kick_alt | I_block_alt

text \<open>
  Player 1 has no alternate bindings; the program never looks them up for player 1,
  and the model gives \<open>None\<close> there.
\<close>

fun KEYS :: "player \<Rightarrow> intent \<Rightarrow> key option" where
  "KEYS P1 I_left = Some K_a"
| "KEYS P1 I_right = Some K_d"
| "KEYS P1 I_up = Some K_w"
| "KEYS P1 I_down = Some K_s"
| "KEYS P1 I_punch = Some K_j"
| "KEYS P1 I_kick = Some K_k"
| "KEYS P1 I_block = Some K_l"
| "KEYS P1 _ = None"
| "KEYS P2 I_left = Some K_LEFT"
| "KEYS P2 I_right = Some K_RIGHT"
| "KEYS P2 I_up = Some K_UP"
| "KEYS P2 I_down = Some K_DOWN"
| "KEYS P2 I_punch = Some K_KP1"
| "KEYS P2 I_kick = Some K_KP2"
| "KEYS P2 I_block = Some K_RSHIFT"
| "KEYS P2 I_punch_alt = Some K_1"
| "KEYS P2 I_kick_alt = Some K_2"
| "KEYS P2 I_block_alt = Some K_3"

text \<open>\<^verbatim>\<open>keys[KEYS[name][intent]]\<close>\<close>

definition pressed :: "(key \<Rightarrow> bool) \<Rightarrow> player \<Rightarrow> intent \<Rightarrow> bool" where
  "pressed keys n i = (case KEYS n i of None \<Rightarrow> False | Some k \<Rightarrow> keys k)"

section \<open>Fighter\<close>

text \<open>
  The attack kind is one of the two string literals \<^verbatim>\<open>"punch"\<close> and \<^verbatim>\<open>"kick"\<close>;
  \<^verbatim>\<open>attack_type\<close> is \<^verbatim>\<open>None\<close> or one of them. The fighter's name is \<^verbatim>\<open>"p1"\<close> or
  \<^verbatim>\<open>"p2"\<close>. The colour is used by the renderer only and is left out.
\<close>

datatype attack_kind = Punch | Kick

record Fighter =
  f_w :: int
  f_h :: int
  rect :: Rect
  velocity_x :: real
  velocity_y :: real
  on_ground :: bool
  crouching :: bool
  blocking :: bool
  facing :: int
  name :: player
  max_hp :: int
  hp :: real
  rounds_won :: int
  attack_cooldown :: int
  attack_type :: "attack_kind option"
  attack_timer :: int
  hitstop :: int
  hit_this_attack :: bool

text \<open>\<^verbatim>\<open>Fighter.__init__(self, x, facing, color, name)\<close>\<close>

definition new_fighter :: "int \<Rightarrow> int \<Rightarrow> player \<Rightarrow> Fighter" where
  "new_fighter x0 fc n =
     \<lparr>f_w = 56, f_h = 98,
      rect = mk_rect x0 (GROUND_Y - 98) 56 98,
      velocity_x = 0, velocity_y = 0,
      on_ground = True, crouching = False, blocking = False,
      facing = fc, name = n,
      max_hp = 100, hp = 100, rounds_won = 0,
      attack_cooldown = 0, attack_type = None, attack_timer = 0,
      hitstop = 0, hit_this_attack = False\<rparr>"

text \<open>\<^verbatim>\<open>Fighter.hurtbox\<close>: the bottom half of the body when crouching on the ground.\<close>

definition hurtbox :: "Fighter \<Rightarrow> Rect" where
  "hurtbox f =
     (if crouching f \<and> on_ground f
      then mk_rect (rx (rect f)) (bottom (rect f) - f_h f div 2) (f_w f) (f_h f div 2)
      else rect f)"

text \<open>
  \<^verbatim>\<open>Fighter.attack_box\<close>. The box is built first and returned only when the timer
  is inside the active frames.
\<close>

definition attack_box :: "Fighter \<Rightarrow> Rect option" where
  "attack_box f =
     (case attack_type f of
        None \<Rightarrow> None
      | Some kind \<Rightarrow>
          (let (aw, ah) = (if kind = Punch then PUNCH_RANGE else KICK_RANGE);
               (startup, active) = (if kind = Punch then (4, 5) else (6, 6));
               box_x = centerx (hurtbox f) + facing f * (f_w f div 2 - 4);
               box_y = centery (hurtbox f) - ah div 2;
               hit_rect = mk_rect 0 0 aw ah;
               hit_rect = (if facing f > 0 then set_topleft (box_x, box_y) hit_rect
                           else set_topright (box_x, box_y) hit_rect)
           in if attack_timer f < startup \<or> attack_timer f \<ge> startup + active
              then None else Some hit_rect))"

text \<open>
  \<^verbatim>\<open>Fighter.start_attack\<close>: refused during cooldown and hitstop; the crouching
  low-kick branch of the source is a \<^verbatim>\<open>pass\<close>.
\<close>

definition start_attack :: "attack_kind \<Rightarrow> Fighter \<Rightarrow> Fighter" where
  "start_attack kind f =
     (if attack_cooldown f > 0 \<or> hitstop f > 0 then f
      else f\<lparr>attack_type := Some kind, attack_timer := 0,
             attack_cooldown := 0, hit_this_attack := False\<rparr>)"

text \<open>\<^verbatim>\<open>Fighter.apply_gravity\<close>\<close>

definition apply_gravity :: "Fighter \<Rightarrow> Fighter" where
  "apply_gravity f =
     (if \<not> on_ground f
      then f\<lparr>velocity_y := clamp (velocity_y f + GRAVITY) (- 999) MAX_FALL\<rparr>
      else f)"

text \<open>
  \<^verbatim>\<open>Fighter.receive_hit(self, dmg, direction, blocked)\<close>: chip damage when the
  fighter is blocking and the hit is flagged blocked, full damage otherwise; the
  health is clamped; the pushback moves the rectangle only on the ground.
\<close>

definition receive_hit :: "int \<Rightarrow> int \<Rightarrow> bool \<Rightarrow> Fighter \<Rightarrow> Fighter" where
  "receive_hit dmg direction blocked f =
     (let (f1, push) =
            (if blocking f \<and> blocked
             then (let chip = max 1 (py_int (of_int dmg * BLOCK_CHIP))
                   in (f\<lparr>hp := hp f - of_int chip\<rparr>, BLOCK_PUSHBACK * direction))
             else (f\<lparr>hp := hp f - of_int dmg\<rparr>, PUSHBACK * direction));
          f2 = f1\<lparr>hp := clamp (hp f1) 0 (of_int (max_hp f1))\<rparr>;
          f3 = (if on_ground f2 then f2\<lparr>rect := (rect f2)\<lparr>rx := rx (rect f2) + push\<rparr>\<rparr>
                else f2)
      in f3\<lparr>hitstop := HITSTOP\<rparr>)"

text \<open>
  \<^verbatim>\<open>Fighter.update(self, keys, opp, bounds)\<close> mutates the fighter and, in its last
  step, the opponent's rectangle; the model returns both. The method is one long
  body; the model names its steps after the comments that head them in the source
  and composes them in the source's order.
\<close>

definition punch_pressed :: "(key \<Rightarrow> bool) \<Rightarrow> Fighter \<Rightarrow> bool" where
  "punch_pressed keys f =
     (if name f = P2 then pressed keys P2 I_punch \<or> pressed keys P2 I_punch_alt
      else pressed keys P1 I_punch)"

definition kick_pressed :: "(key \<Rightarrow> bool) \<Rightarrow> Fighter \<Rightarrow> bool" where
  "kick_pressed keys f =
     (if name f = P2 then pressed keys P2 I_kick \<or> pressed keys P2 I_kick_alt
      else pressed keys P1 I_kick)"

definition block_down :: "(key \<Rightarrow> bool) \<Rightarrow> Fighter \<Rightarrow> bool" where
  "block_down keys f =
     (if name f = P2 then pressed keys P2 I_block \<or> pressed keys P2 I_block_alt
      else pressed keys P1 I_block)"

text \<open>Face opponent.\<close>

definition update_face :: "Fighter \<Rightarrow> Fighter \<Rightarrow> Fighter" where
  "update_face opp f =
     (if centerx (rect opp) \<noteq> centerx (rect f)
      then f\<lparr>facing := (if centerx (rect opp) > centerx (rect f) then 1 else - 1)\<rparr>
      else f)"

text \<open>Blocking and crouching, both only on the ground; blocking wins.\<close>

definition update_stance :: "(key \<Rightarrow> bool) \<Rightarrow> Fighter \<Rightarrow> Fighter" where
  "update_stance keys f =
     (let f1 = f\<lparr>blocking := (block_down keys f \<and> on_ground f)\<rparr>
      in f1\<lparr>crouching := (pressed keys (name f1) I_down \<and> on_ground f1 \<and> \<not> blocking f1)\<rparr>)"

text \<open>Basic movement: you cannot walk forward while blocking.\<close>

definition update_walk :: "(key \<Rightarrow> bool) \<Rightarrow> Fighter \<Rightarrow> Fighter" where
  "update_walk keys f =
     (let move_left = pressed keys (name f) I_left;
          move_right = pressed keys (name f) I_right
      in if \<not> blocking f then
           (if move_left \<and> \<not> move_right then f\<lparr>velocity_x := - MOVE_SPEED\<rparr>
            else if move_right \<and> \<not> move_left then f\<lparr>velocity_x := MOVE_SPEED\<rparr>
            else (let f1 = f\<lparr>velocity_x := velocity_x f * FRICTION\<rparr>
                  in if \<bar>velocity_x f1\<bar> < 0.15 then f1\<lparr>velocity_x := 0\<rparr> else f1))
         else f\<lparr>velocity_x := velocity_x f * FRICTION\<rparr>)"

text \<open>Jump.\<close>

definition update_jump :: "(key \<Rightarrow> bool) \<Rightarrow> Fighter \<Rightarrow> Fighter" where
  "update_jump keys f =
     (if pressed keys (name f) I_up \<and> on_ground f \<and> \<not> blocking f
      then f\<lparr>velocity_y := JUMP_SPEED, on_ground := False, crouching := False\<rparr>
      else f)"

text \<open>Attacks: punch before kick.\<close>

definition update_attacks :: "(key \<Rightarrow> bool) \<Rightarrow> Fighter \<Rightarrow> Fighter" where
  "update_attacks keys f =
     (if punch_pressed keys f then start_attack Punch f
      else if kick_pressed keys f then start_attack Kick f
      else f)"

text \<open>Advance attack timer; the move ends at frame 14 (punch) or 18 (kick).\<close>

definition update_attack_timer :: "Fighter \<Rightarrow> Fighter" where
  "update_attack_timer f =
     (case attack_type f of
        None \<Rightarrow> f
      | Some kind \<Rightarrow>
          (let f1 = f\<lparr>attack_timer := attack_timer f + 1\<rparr>;
               end_frame = (if kind = Punch then 14 else 18)
           in if attack_timer f1 \<ge> end_frame
              then f1\<lparr>attack_type := None, attack_timer := 0, attack_cooldown := 8\<rparr>
              else f1))"

definition update_cooldown :: "Fighter \<Rightarrow> Fighter" where
  "update_cooldown f =
     (if attack_cooldown f > 0 then f\<lparr>attack_cooldown := attack_cooldown f - 1\<rparr> else f)"

text \<open>Move and collide with ground; keep within bounds.\<close>

definition update_move :: "Rect \<Rightarrow> Fighter \<Rightarrow> Fighter" where
  "update_move bounds f =
     (let r1 = (rect f)\<lparr>rx := py_int (of_int (rx (rect f)) + velocity_x f)\<rparr>;
          r2 = (if left r1 < left bounds then set_left (left bounds) r1 else r1);
          r3 = (if right r2 > right bounds then set_right (right bounds) r2 else r2);
          r4 = r3\<lparr>ry := py_int (of_int (ry r3) + velocity_y f)\<rparr>
      in if bottom r4 \<ge> GROUND_Y
         then f\<lparr>rect := set_bottom GROUND_Y r4, velocity_y := 0, on_ground := True\<rparr>
         else f\<lparr>rect := r4\<rparr>)"

text \<open>Prevent overlapping fighters: simple push apart.\<close>

definition move_x :: "int \<Rightarrow> Fighter \<Rightarrow> Fighter" where
  "move_x d f = f\<lparr>rect := (rect f)\<lparr>rx := rx (rect f) + d\<rparr>\<rparr>"

definition update_push :: "Fighter \<Rightarrow> Fighter \<Rightarrow> Fighter \<times> Fighter" where
  "update_push f opp =
     (if colliderect (rect f) (rect opp) then
        (let overlap = clip (rect f) (rect opp)
         in if rw overlap < rh overlap then
              (let shift = rw overlap div 2 + 1
               in if centerx (rect f) < centerx (rect opp)
                  then (move_x (- shift) f, move_x shift opp)
                  else (move_x shift f, move_x (- shift) opp))
            else (f, opp))
      else (f, opp))"

definition update :: "(key \<Rightarrow> bool) \<Rightarrow> Rect \<Rightarrow> Fighter \<Rightarrow> Fighter \<Rightarrow> Fighter \<times> Fighter" where
  "update keys bounds f opp =
     (if hitstop f > 0 then (f\<lparr>hitstop := hitstop f - 1\<rparr>, opp)
      else
        (let f1 = update_face opp f;
             f2 = update_stance keys f1;
             f3 = update_walk keys f2;
             f4 = update_jump keys f3;
             f5 = update_attacks keys f4;
             f6 = update_attack_timer f5;
             f7 = update_cooldown f6;
             f8 = apply_gravity f7;
             f9 = update_move bounds f8
         in update_push f9 opp))"

section \<open>Game\<close>

text \<open>
  The controller's simulation state. The display, the fonts and the clock object
  are left out; the elapsed time \<open>dt\<close> and the keyboard snapshot are parameters of
  the tick. \<^verbatim>\<open>match_end\<close> is the attribute that \<^verbatim>\<open>run\<close> sets to False before the
  first tick.
\<close>

record Game =
  p1 :: Fighter
  p2 :: Fighter
  bounds :: Rect
  round_time :: real
  freeze_timer :: int
  match_end :: bool
  paused :: bool

text \<open>\<^verbatim>\<open>Game.reset_match\<close>\<close>

definition reset_match :: "Game \<Rightarrow> Game" where
  "reset_match g =
     g\<lparr>p1 := new_fighter 200 1 P1,
       p2 := new_fighter (WIDTH - 260) (- 1) P2,
       round_time := ROUND_TIME,
       freeze_timer := 60\<rparr>"

text \<open>The state after \<^verbatim>\<open>Game.__init__\<close> and the first statement of \<^verbatim>\<open>run\<close>.\<close>

definition new_game :: Game where
  "new_game =
     \<lparr>p1 = new_fighter 200 1 P1,
      p2 = new_fighter (WIDTH - 260) (- 1) P2,
      bounds = mk_rect 40 0 (WIDTH - 80) HEIGHT,
      round_time = ROUND_TIME,
      freeze_timer = 60,
      match_end = False,
      paused = False\<rparr>"

text \<open>\<^verbatim>\<open>Game.round_over(self, winner_name=None)\<close>\<close>

definition new_round :: "Game \<Rightarrow> Game" where
  "new_round g =
     (let a = p1 g; b = p2 g;
          a1 = a\<lparr>hp := of_int (max_hp a)\<rparr>;
          b1 = b\<lparr>hp := of_int (max_hp b)\<rparr>;
          a2 = a1\<lparr>rect := set_topleft (200, GROUND_Y - f_h a1) (rect a1)\<rparr>;
          b2 = b1\<lparr>rect := set_topright (WIDTH - 200, GROUND_Y - f_h b1) (rect b1)\<rparr>;
          a3 = a2\<lparr>velocity_x := 0, velocity_y := 0\<rparr>;
          b3 = b2\<lparr>velocity_x := 0, velocity_y := 0\<rparr>;
          a4 = a3\<lparr>attack_type := None\<rparr>;
          b4 = b3\<lparr>attack_type := None\<rparr>
      in g\<lparr>p1 := a4, p2 := b4, freeze_timer := 60, round_time := ROUND_TIME,
            match_end := False\<rparr>)"

definition round_over :: "player option \<Rightarrow> Game \<Rightarrow> Game" where
  "round_over winner_name g =
     (let g1 = (if winner_name = Some P1
                then g\<lparr>p1 := (p1 g)\<lparr>rounds_won := rounds_won (p1 g) + 1\<rparr>\<rparr>
                else if winner_name = Some P2
                then g\<lparr>p2 := (p2 g)\<lparr>rounds_won := rounds_won (p2 g) + 1\<rparr>\<rparr>
                else g);
          needed = BEST_OF div 2 + 1
      in if rounds_won (p1 g1) \<ge> needed \<or> rounds_won (p2 g1) \<ge> needed
         then g1\<lparr>freeze_timer := 120, round_time := 0, match_end := True\<rparr>
         else new_round g1)"

text \<open>
  \<^verbatim>\<open>Game.handle_hits\<close>: the loop body for one (attacker, defender) pair, then the
  two pairs in the source's order, the second on the objects the first has mutated.
\<close>

definition hit_lands :: "Fighter \<Rightarrow> Fighter \<Rightarrow> bool" where
  "hit_lands atk dfd =
     (case attack_box atk of
        None \<Rightarrow> False
      | Some box \<Rightarrow> rect_bool box \<and> \<not> hit_this_attack atk \<and> colliderect box (hurtbox dfd))"

definition handle_pair :: "Fighter \<Rightarrow> Fighter \<Rightarrow> Fighter \<times> Fighter" where
  "handle_pair atk dfd =
     (if hit_lands atk dfd then
        (let blocked = blocking dfd;
             dmg = (if attack_type atk = Some Punch then PUNCH_DMG else KICK_DMG);
             dfd1 = receive_hit dmg (sign (facing atk)) blocked dfd
         in (atk\<lparr>hit_this_attack := True, hitstop := HITSTOP\<rparr>, dfd1))
      else (atk, dfd))"

definition handle_hits :: "Game \<Rightarrow> Game" where
  "handle_hits g =
     (let (a1, b1) = handle_pair (p1 g) (p2 g);
          (b2, a2) = handle_pair b1 a1
      in g\<lparr>p1 := a2, p2 := b2\<rparr>)"

text \<open>
  \<^verbatim>\<open>Game.update(self, dt)\<close>. The combat branch runs both fighters' updates and the
  hit detection, then the timer block, then the KO check.
\<close>

definition update_fighters :: "(key \<Rightarrow> bool) \<Rightarrow> Game \<Rightarrow> Game" where
  "update_fighters keys g =
     (let (a1, b1) = update keys (bounds g) (p1 g) (p2 g);
          (b2, a2) = update keys (bounds g) b1 a1
      in g\<lparr>p1 := a2, p2 := b2\<rparr>)"

definition timer_check :: "real \<Rightarrow> Game \<Rightarrow> Game" where
  "timer_check dt g =
     (let g1 = g\<lparr>round_time := round_time g - dt\<rparr>
      in if round_time g1 \<le> 0 then
           (if hp (p1 g1) > hp (p2 g1) then round_over (Some P1) g1
            else if hp (p2 g1) > hp (p1 g1) then round_over (Some P2) g1
            else round_over None g1)
         else g1)"

definition ko_check :: "Game \<Rightarrow> Game" where
  "ko_check g =
     (if hp (p1 g) \<le> 0 then round_over (Some P2) g
      else if hp (p2 g) \<le> 0 then round_over (Some P1) g
      else g)"

definition game_update :: "(key \<Rightarrow> bool) \<Rightarrow> real \<Rightarrow> Game \<Rightarrow> Game" where
  "game_update keys dt g =
     (if \<not> paused g \<and> freeze_timer g \<le> 0 \<and> round_time g > 0
      then ko_check (timer_check dt (handle_hits (update_fighters keys g)))
      else if freeze_timer g > 0 then g\<lparr>freeze_timer := freeze_timer g - 1\<rparr>
      else g)"

section \<open>Runs and sample states\<close>

text \<open>A sequence of \<^verbatim>\<open>receive_hit\<close> calls on one fighter, each with its arguments.\<close>

fun receive_hits :: "Fighter \<Rightarrow> (int \<times> int \<times> bool) list \<Rightarrow> Fighter" where
  "receive_hits f [] = f"
| "receive_hits f ((dmg, direction, blocked) # cs) =
     receive_hits (receive_hit dmg direction blocked f) cs"

text \<open>A fighter of player 1 that holds block on the ground.\<close>

definition blocking_fighter :: Fighter where
  "blocking_fighter = (new_fighter 200 1 P1)\<lparr>blocking := True\<rparr>"

text \<open>A keyboard snapshot in which exactly the listed keys are held.\<close>

definition holding :: "key list \<Rightarrow> key \<Rightarrow> bool" where
  "holding ks k = (k \<in> set ks)"

text \<open>
  Player 1 five ticks into a punch: the state reached from the start position by
  pressing the punch key once and releasing it.
\<close>

definition mid_punch :: Fighter where
  "mid_punch = (new_fighter 200 1 P1)\<lparr>attack_type := Some Punch, attack_timer := 5\<rparr>"



text \<open>
  Both fighters three ticks into a punch, four pixels apart, each with 8 health
  left: on the next tick both punches become active and both land.
\<close>

definition clash_game :: Game where
  "clash_game =
     new_game\<lparr>p1 := (new_fighter 200 1 P1)\<lparr>attack_type := Some Punch, attack_timer := 3, hp := 8\<rparr>,
              p2 := (new_fighter 260 (- 1) P2)\<lparr>attack_type := Some Punch, attack_timer := 3, hp := 8\<rparr>,
              freeze_timer := 0\<rparr>"

text \<open>Player 1 three ticks into a punch next to player 2, who has 8 health left.\<close>

definition ko_game :: Game where
  "ko_game =
     new_game\<lparr>p1 := (new_fighter 200 1 P1)\<lparr>attack_type := Some Punch, attack_timer := 3\<rparr>,
              p2 := (new_fighter 260 (- 1) P2)\<lparr>hp := 8\<rparr>,
              freeze_timer := 0\<rparr>"

text \<open>
  Player 2 stands against the right wall of the arena (its right edge is 960, the
  arena's); player 1 stands directly in front of it, three ticks into a punch.
\<close>

definition wall_game :: Game where
  "wall_game =
     new_game\<lparr>p1 := (new_fighter 848 1 P1)\<lparr>attack_type := Some Punch, attack_timer := 3\<rparr>,
              p2 := new_fighter 904 (- 1) P2,
              freeze_timer := 0\<rparr>"

text \<open>Player 2 against the right wall, player 1 two pixels short of touching it.\<close>

definition crowd_game :: Game where
  "crowd_game =
     new_game\<lparr>p1 := new_fighter 846 1 P1,
              p2 := new_fighter 904 (- 1) P2,
              freeze_timer := 0\<rparr>"

text \<open>
  Player 1 in the air directly above player 2, falling at 10 pixels per tick, its
  feet 6 pixels above player 2's head.
\<close>

definition landing_game :: Game where
  "landing_game =
     new_game\<lparr>p1 := (new_fighter 500 1 P1)\<lparr>rect := mk_rect 500 268 56 98, velocity_y := 10,
                                              on_ground := False\<rparr>,
              p2 := new_fighter 500 (- 1) P2,
              freeze_timer := 0\<rparr>"







section \<open>The attack box and its active window\<close>

text \<open>
  Claim C1. \<^verbatim>\<open>attack_box\<close> returns a rectangle exactly when an attack is active
  and the timer is inside the kind's active window: ticks 4 up to but not
  including 9 for a punch, 6 up to but not including 12 for a kick. With no attack
  set, during startup and during recovery it returns \<open>None\<close>.
\<close>

theorem attack_box_active_window:
  "(attack_box f \<noteq> None) =
     (case attack_type f of
        None \<Rightarrow> False
      | Some Punch \<Rightarrow> 4 \<le> attack_timer f \<and> attack_timer f < 9
      | Some Kick \<Rightarrow> 6 \<le> attack_timer f \<and> attack_timer f < 12)"
  by (auto simp: attack_box_def Let_def PUNCH_RANGE_def KICK_RANGE_def
           split: option.splits attack_kind.splits)

section \<open>Damage and health\<close>

text \<open>
  Claim C2. For a positive damage, a hit that is flagged blocked on a blocking
  fighter takes \<open>max 1 \<lfloor>damage * 0.2\<rfloor>\<close> off the health, any other hit takes the full
  damage; the result is then clamped between 0 and the maximum health. A blocked
  kick of 12 costs 2, a blocked punch of 8 costs 1 (the witness).
\<close>

theorem receive_hit_damage:
  assumes "0 < dmg"
  shows "hp (receive_hit dmg direction blocked f) =
           clamp (hp f - of_int (if blocking f \<and> blocked
                                 then max 1 \<lfloor>of_int dmg * (0.2::real)\<rfloor>
                                 else dmg))
                 0 (of_int (max_hp f))"
  using assms
  by (simp add: receive_hit_def Let_def py_int_def BLOCK_CHIP_def split: prod.splits)

theorem receive_hit_damage_witness:
  "(0::int) < KICK_DMG \<and> 0 < PUNCH_DMG
   \<and> hp blocking_fighter = 100
   \<and> hp (receive_hit KICK_DMG 1 True blocking_fighter) = 98
   \<and> hp (receive_hit PUNCH_DMG 1 True blocking_fighter) = 99
   \<and> hp (receive_hit KICK_DMG 1 False blocking_fighter) = 88"
proof -
  have k: "(0::int) < KICK_DMG" and p: "(0::int) < PUNCH_DMG"
    by (simp_all add: KICK_DMG_def PUNCH_DMG_def)
  have f: "hp blocking_fighter = 100" "max_hp blocking_fighter = 100"
    "blocking blocking_fighter"
    by (simp_all add: blocking_fighter_def new_fighter_def)
  show ?thesis
    using k p f
      receive_hit_damage [OF k, of 1 True blocking_fighter]
      receive_hit_damage [OF p, of 1 True blocking_fighter]
      receive_hit_damage [OF k, of 1 False blocking_fighter]
    by (simp add: KICK_DMG_def PUNCH_DMG_def clamp_def)
qed

lemma max_hp_receive_hit: "max_hp (receive_hit dmg direction blocked f) = max_hp f"
  by (simp add: receive_hit_def Let_def split: prod.splits)

lemma hp_receive_hit_range:
  "0 \<le> max_hp f \<Longrightarrow>
     0 \<le> hp (receive_hit dmg direction blocked f)
     \<and> hp (receive_hit dmg direction blocked f) \<le> of_int (max_hp f)"
  by (simp add: receive_hit_def Let_def clamp_def split: prod.splits)

lemma receive_hits_snoc:
  "receive_hits f (cs @ [c]) =
     (case c of (dmg, direction, blocked) \<Rightarrow>
        receive_hit dmg direction blocked (receive_hits f cs))"
  by (induction f cs rule: receive_hits.induct) (auto split: prod.splits)

lemma max_hp_receive_hits: "max_hp (receive_hits f cs) = max_hp f"
  by (induction f cs rule: receive_hits.induct) (auto simp: max_hp_receive_hit)

text \<open>
  Claim C3. After each call of a sequence of \<^verbatim>\<open>receive_hit\<close> calls (that is, after
  every non-empty sequence of calls, whatever their arguments) the health lies
  between 0 and the maximum health. The maximum health must not be negative; the
  constructor sets it to 100 and nothing changes it.
\<close>

theorem receive_hits_health_range:
  assumes "0 \<le> max_hp f" and "cs \<noteq> []"
  shows "0 \<le> hp (receive_hits f cs) \<and> hp (receive_hits f cs) \<le> of_int (max_hp f)"
  using assms
proof (induction cs rule: rev_induct)
  case Nil
  then show ?case by simp
next
  case (snoc c cs)
  obtain dmg direction blocked where c: "c = (dmg, direction, blocked)"
    by (cases c) auto
  have "0 \<le> max_hp (receive_hits f cs)"
    using snoc.prems by (simp add: max_hp_receive_hits)
  from hp_receive_hit_range [OF this, of dmg direction blocked]
  show ?case by (simp add: receive_hits_snoc c max_hp_receive_hits)
qed

theorem receive_hits_health_range_witness:
  "0 \<le> max_hp (new_fighter 200 1 P1)
   \<and> [(12, 1, False), (200, 1, False), (- 500, - 1, True)] \<noteq> ([] :: (int \<times> int \<times> bool) list)
   \<and> hp (receive_hits (new_fighter 200 1 P1) [(12, 1, False), (200, 1, False)]) = 0
   \<and> hp (receive_hits (new_fighter 200 1 P1)
            [(12, 1, False), (200, 1, False), (- 500, - 1, True)]) \<le> 100
   \<and> 0 \<le> hp (receive_hits (new_fighter 200 1 P1)
            [(12, 1, False), (200, 1, False), (- 500, - 1, True)])"
proof -
  have m: "0 \<le> max_hp (new_fighter 200 1 P1)" "max_hp (new_fighter 200 1 P1) = 100"
    by (simp_all add: new_fighter_def)
  have z: "hp (receive_hits (new_fighter 200 1 P1) [(12, 1, False), (200, 1, False)]) = 0"
    by (simp add: receive_hit_def new_fighter_def clamp_def Let_def)
  show ?thesis
    using m z
      receive_hits_health_range [OF m(1),
        of "[(12, 1, False), (200, 1, False), (- 500, - 1, True)]"]
    by simp
qed

section \<open>Attack progression\<close>

lemmas const_defs = WIDTH_def HEIGHT_def GROUND_Y_def GRAVITY_def FRICTION_def MOVE_SPEED_def
  JUMP_SPEED_def MAX_FALL_def PUSHBACK_def BLOCK_PUSHBACK_def HITSTOP_def PUNCH_RANGE_def
  KICK_RANGE_def PUNCH_DMG_def KICK_DMG_def BLOCK_CHIP_def ROUND_TIME_def BEST_OF_def

lemmas rect_defs = mk_rect_def left_def right_def bottom_def centerx_def centery_def
  set_left_def set_right_def set_bottom_def set_topleft_def set_topright_def
  colliderect_def clip_def clip_axis_def rect_bool_def

lemmas step_defs = update_face_def update_stance_def update_walk_def
  update_jump_def update_attacks_def update_attack_timer_def update_cooldown_def
  apply_gravity_def update_move_def update_push_def move_x_def start_attack_def
  punch_pressed_def kick_pressed_def block_down_def pressed_def

lemmas eval_defs = new_game_def new_fighter_def holding_def step_defs rect_defs const_defs
      handle_pair_def hit_lands_def attack_box_def hurtbox_def receive_hit_def sign_def py_int_def clamp_def Let_def

lemma attack_state_update_push:
  "attack_type (fst (update_push f opp)) = attack_type f"
  "attack_timer (fst (update_push f opp)) = attack_timer f"
  "attack_cooldown (fst (update_push f opp)) = attack_cooldown f"
  by (simp_all add: update_push_def move_x_def Let_def)

lemma attack_state_update_move:
  "attack_type (update_move b f) = attack_type f"
  "attack_timer (update_move b f) = attack_timer f"
  "attack_cooldown (update_move b f) = attack_cooldown f"
  by (simp_all add: update_move_def Let_def)

text \<open>
  Claim C5, as stated, fails: \<^verbatim>\<open>start_attack\<close> refuses a new attack only during
  cooldown and hitstop, not while an attack is running. A punch pressed five ticks
  into a punch restarts it: the kind stays set and the timer falls from 5 to 1.
\<close>

theorem attack_timer_restart_counterexample:
  "attack_type mid_punch = Some Punch \<and> attack_timer mid_punch = 5 \<and> hitstop mid_punch = 0
   \<and> attack_type (fst (update (holding [K_j]) (bounds new_game) mid_punch
                         (new_fighter 740 (- 1) P2))) = Some Punch
   \<and> attack_timer (fst (update (holding [K_j]) (bounds new_game) mid_punch
                          (new_fighter 740 (- 1) P2))) = 1"
  apply (simp only: update_def Let_def)
  apply (simp add: mid_punch_def new_fighter_def new_game_def holding_def step_defs
                   rect_defs const_defs py_int_def clamp_def Let_def)
  done

text \<open>
  Claim C5, amended. In a non-frozen update tick in which neither punch nor kick is
  pressed and an attack of some kind is set, either the timer goes up by exactly
  one and the kind stays, or the timer reaches the move's total duration (14 for a
  punch, 18 for a kick) and then the kind is cleared, the timer is 0 and the
  cooldown is set (8, less the decrement of the same tick).
\<close>

theorem attack_timer_progress:
  assumes "hitstop f \<le> 0" and "attack_type f = Some kind"
    and "\<not> punch_pressed keys f" and "\<not> kick_pressed keys f"
  shows "(if attack_timer f + 1 < (if kind = Punch then 14 else 18)
          then attack_type (fst (update keys bnds f opp)) = Some kind
             \<and> attack_timer (fst (update keys bnds f opp)) = attack_timer f + 1
          else attack_type (fst (update keys bnds f opp)) = None
             \<and> attack_timer (fst (update keys bnds f opp)) = 0
             \<and> attack_cooldown (fst (update keys bnds f opp)) = 7)"
proof -
  let ?f4 = "update_jump keys (update_walk keys (update_stance keys (update_face opp f)))"
  have n: "name ?f4 = name f"
    by (simp add: update_jump_def update_walk_def update_stance_def update_face_def Let_def)
  have a: "attack_type ?f4 = Some kind" "attack_timer ?f4 = attack_timer f"
    using assms
    by (simp_all add: update_jump_def update_walk_def update_stance_def update_face_def Let_def)
  have p: "\<not> punch_pressed keys ?f4" "\<not> kick_pressed keys ?f4"
    using assms n by (simp_all add: punch_pressed_def kick_pressed_def)
  have f5: "update_attacks keys ?f4 = ?f4"
    using p by (simp add: update_attacks_def)
  show ?thesis
    using assms(1) a
    by (simp add: update_def Let_def f5 attack_state_update_push attack_state_update_move
                  apply_gravity_def update_cooldown_def update_attack_timer_def)
qed

theorem attack_timer_progress_witness:
  "hitstop mid_punch \<le> 0 \<and> attack_type mid_punch = Some Punch
   \<and> \<not> punch_pressed (holding []) mid_punch \<and> \<not> kick_pressed (holding []) mid_punch
   \<and> attack_timer mid_punch = 5
   \<and> attack_type (fst (update (holding []) (bounds new_game) mid_punch
                         (new_fighter 740 (- 1) P2))) = Some Punch
   \<and> attack_timer (fst (update (holding []) (bounds new_game) mid_punch
                          (new_fighter 740 (- 1) P2))) = 6"
proof -
  have h: "hitstop mid_punch \<le> 0" and t: "attack_type mid_punch = Some Punch"
    and k: "\<not> punch_pressed (holding []) mid_punch" "\<not> kick_pressed (holding []) mid_punch"
    and m: "attack_timer mid_punch = 5"
    by (simp_all add: mid_punch_def new_fighter_def holding_def punch_pressed_def
                      kick_pressed_def pressed_def)
  show ?thesis
    using h t k m
      attack_timer_progress [OF h t k, of "bounds new_game" "new_fighter 740 (- 1) P2"]
    by simp
qed

section \<open>Fields that a step leaves alone\<close>

lemma frame_update_face:
  "max_hp (update_face opp f) = max_hp f" "hp (update_face opp f) = hp f"
  "rounds_won (update_face opp f) = rounds_won f" "name (update_face opp f) = name f"
  "hit_this_attack (update_face opp f) = hit_this_attack f"
  "hitstop (update_face opp f) = hitstop f" "attack_cooldown (update_face opp f) = attack_cooldown f"
  "rect (update_face opp f) = rect f"
  by (simp_all add: update_face_def)

lemma frame_update_stance:
  "max_hp (update_stance keys f) = max_hp f" "hp (update_stance keys f) = hp f"
  "rounds_won (update_stance keys f) = rounds_won f" "name (update_stance keys f) = name f"
  "hit_this_attack (update_stance keys f) = hit_this_attack f"
  "hitstop (update_stance keys f) = hitstop f" "attack_cooldown (update_stance keys f) = attack_cooldown f"
  "rect (update_stance keys f) = rect f"
  by (simp_all add: update_stance_def Let_def)

lemma frame_update_walk:
  "max_hp (update_walk keys f) = max_hp f" "hp (update_walk keys f) = hp f"
  "rounds_won (update_walk keys f) = rounds_won f" "name (update_walk keys f) = name f"
  "hit_this_attack (update_walk keys f) = hit_this_attack f"
  "hitstop (update_walk keys f) = hitstop f" "attack_cooldown (update_walk keys f) = attack_cooldown f"
  "rect (update_walk keys f) = rect f"
  by (simp_all add: update_walk_def Let_def)

lemma frame_update_jump:
  "max_hp (update_jump keys f) = max_hp f" "hp (update_jump keys f) = hp f"
  "rounds_won (update_jump keys f) = rounds_won f" "name (update_jump keys f) = name f"
  "hit_this_attack (update_jump keys f) = hit_this_attack f"
  "hitstop (update_jump keys f) = hitstop f" "attack_cooldown (update_jump keys f) = attack_cooldown f"
  "rect (update_jump keys f) = rect f"
  by (simp_all add: update_jump_def)

lemma frame_start_attack:
  "max_hp (start_attack kind f) = max_hp f" "hp (start_attack kind f) = hp f"
  "rounds_won (start_attack kind f) = rounds_won f" "name (start_attack kind f) = name f"
  "hitstop (start_attack kind f) = hitstop f"
  "rect (start_attack kind f) = rect f"
  by (simp_all add: start_attack_def)

lemma frame_update_attacks:
  "max_hp (update_attacks keys f) = max_hp f" "hp (update_attacks keys f) = hp f"
  "rounds_won (update_attacks keys f) = rounds_won f" "name (update_attacks keys f) = name f"
  "hitstop (update_attacks keys f) = hitstop f"
  "rect (update_attacks keys f) = rect f"
  by (simp_all add: update_attacks_def frame_start_attack)

lemma frame_update_attack_timer:
  "max_hp (update_attack_timer f) = max_hp f" "hp (update_attack_timer f) = hp f"
  "rounds_won (update_attack_timer f) = rounds_won f" "name (update_attack_timer f) = name f"
  "hit_this_attack (update_attack_timer f) = hit_this_attack f"
  "hitstop (update_attack_timer f) = hitstop f"
  "rect (update_attack_timer f) = rect f"
  by (simp_all add: update_attack_timer_def Let_def split: option.splits)

lemma frame_update_cooldown:
  "max_hp (update_cooldown f) = max_hp f" "hp (update_cooldown f) = hp f"
  "rounds_won (update_cooldown f) = rounds_won f" "name (update_cooldown f) = name f"
  "hit_this_attack (update_cooldown f) = hit_this_attack f"
  "hitstop (update_cooldown f) = hitstop f"
  "rect (update_cooldown f) = rect f"
  by (simp_all add: update_cooldown_def)

lemma frame_apply_gravity:
  "max_hp (apply_gravity f) = max_hp f" "hp (apply_gravity f) = hp f"
  "rounds_won (apply_gravity f) = rounds_won f" "name (apply_gravity f) = name f"
  "hit_this_attack (apply_gravity f) = hit_this_attack f"
  "hitstop (apply_gravity f) = hitstop f"
  "rect (apply_gravity f) = rect f"
  by (simp_all add: apply_gravity_def)

lemma frame_update_move:
  "max_hp (update_move b f) = max_hp f" "hp (update_move b f) = hp f"
  "rounds_won (update_move b f) = rounds_won f" "name (update_move b f) = name f"
  "hit_this_attack (update_move b f) = hit_this_attack f"
  "hitstop (update_move b f) = hitstop f"
  by (simp_all add: update_move_def Let_def)

lemma frame_move_x:
  "max_hp (move_x d f) = max_hp f" "hp (move_x d f) = hp f"
  "rounds_won (move_x d f) = rounds_won f" "name (move_x d f) = name f"
  "hit_this_attack (move_x d f) = hit_this_attack f"
  "hitstop (move_x d f) = hitstop f" "attack_cooldown (move_x d f) = attack_cooldown f"
  "attack_type (move_x d f) = attack_type f" "attack_timer (move_x d f) = attack_timer f"
  by (simp_all add: move_x_def)

lemma frame_update_push:
  "max_hp (fst (update_push f opp)) = max_hp f" "hp (fst (update_push f opp)) = hp f"
  "rounds_won (fst (update_push f opp)) = rounds_won f" "name (fst (update_push f opp)) = name f"
  "hit_this_attack (fst (update_push f opp)) = hit_this_attack f"
  "hitstop (fst (update_push f opp)) = hitstop f"
  "max_hp (snd (update_push f opp)) = max_hp opp" "hp (snd (update_push f opp)) = hp opp"
  "rounds_won (snd (update_push f opp)) = rounds_won opp" "name (snd (update_push f opp)) = name opp"
  "hit_this_attack (snd (update_push f opp)) = hit_this_attack opp"
  "hitstop (snd (update_push f opp)) = hitstop opp"
  "attack_cooldown (snd (update_push f opp)) = attack_cooldown opp"
  "attack_type (snd (update_push f opp)) = attack_type opp"
  "attack_timer (snd (update_push f opp)) = attack_timer opp"
  by (simp_all add: update_push_def Let_def frame_move_x)

lemmas frame_steps = frame_update_face frame_update_stance frame_update_walk frame_update_jump
  frame_update_attacks frame_update_attack_timer frame_update_cooldown frame_apply_gravity
  frame_update_move frame_update_push

lemma frame_update_self:
  "max_hp (fst (update keys b f opp)) = max_hp f" "hp (fst (update keys b f opp)) = hp f"
  "rounds_won (fst (update keys b f opp)) = rounds_won f" "name (fst (update keys b f opp)) = name f"
  by (simp_all add: update_def Let_def frame_steps)

lemma frame_update_opp:
  "max_hp (snd (update keys b f opp)) = max_hp opp" "hp (snd (update keys b f opp)) = hp opp"
  "rounds_won (snd (update keys b f opp)) = rounds_won opp" "name (snd (update keys b f opp)) = name opp"
  "hit_this_attack (snd (update keys b f opp)) = hit_this_attack opp"
  "hitstop (snd (update keys b f opp)) = hitstop opp"
  "attack_cooldown (snd (update keys b f opp)) = attack_cooldown opp"
  "attack_type (snd (update keys b f opp)) = attack_type opp"
  "attack_timer (snd (update keys b f opp)) = attack_timer opp"
  by (simp_all add: update_def Let_def frame_steps)

lemma frame_update_fighters:
  "max_hp (p1 (update_fighters keys g)) = max_hp (p1 g)" "max_hp (p2 (update_fighters keys g)) = max_hp (p2 g)"
  "hp (p1 (update_fighters keys g)) = hp (p1 g)" "hp (p2 (update_fighters keys g)) = hp (p2 g)"
  "rounds_won (p1 (update_fighters keys g)) = rounds_won (p1 g)"
  "rounds_won (p2 (update_fighters keys g)) = rounds_won (p2 g)"
  "name (p1 (update_fighters keys g)) = name (p1 g)" "name (p2 (update_fighters keys g)) = name (p2 g)"
  by (simp_all add: update_fighters_def Let_def split_beta frame_update_self frame_update_opp)

lemma frame_receive_hit:
  "max_hp (receive_hit dmg d b f) = max_hp f" "rounds_won (receive_hit dmg d b f) = rounds_won f"
  "name (receive_hit dmg d b f) = name f" "hit_this_attack (receive_hit dmg d b f) = hit_this_attack f"
  "attack_type (receive_hit dmg d b f) = attack_type f" "attack_timer (receive_hit dmg d b f) = attack_timer f"
  by (simp_all add: receive_hit_def Let_def split_beta)

lemma frame_handle_pair:
  "max_hp (fst (handle_pair a d)) = max_hp a" "max_hp (snd (handle_pair a d)) = max_hp d"
  "rounds_won (fst (handle_pair a d)) = rounds_won a" "rounds_won (snd (handle_pair a d)) = rounds_won d"
  "name (fst (handle_pair a d)) = name a" "name (snd (handle_pair a d)) = name d"
  "hp (fst (handle_pair a d)) = hp a"
  "hit_this_attack (snd (handle_pair a d)) = hit_this_attack d"
  by (simp_all add: handle_pair_def Let_def frame_receive_hit)

lemma frame_handle_hits:
  "max_hp (p1 (handle_hits g)) = max_hp (p1 g)" "max_hp (p2 (handle_hits g)) = max_hp (p2 g)"
  "rounds_won (p1 (handle_hits g)) = rounds_won (p1 g)"
  "rounds_won (p2 (handle_hits g)) = rounds_won (p2 g)"
  "name (p1 (handle_hits g)) = name (p1 g)" "name (p2 (handle_hits g)) = name (p2 g)"
  by (simp_all add: handle_hits_def Let_def split_beta frame_handle_pair)

lemma frame_game:
  "round_time (update_fighters keys g) = round_time g" "round_time (handle_hits g) = round_time g"
  "freeze_timer (update_fighters keys g) = freeze_timer g" "freeze_timer (handle_hits g) = freeze_timer g"
  "match_end (update_fighters keys g) = match_end g" "match_end (handle_hits g) = match_end g"
  "paused (update_fighters keys g) = paused g" "paused (handle_hits g) = paused g"
  "bounds (update_fighters keys g) = bounds g" "bounds (handle_hits g) = bounds g"
  by (simp_all add: update_fighters_def handle_hits_def Let_def split_beta)

lemma round_over_rounds:
  "rounds_won (p1 (round_over w g)) = rounds_won (p1 g) + (if w = Some P1 then 1 else 0)"
  "rounds_won (p2 (round_over w g)) = rounds_won (p2 g) + (if w = Some P2 then 1 else 0)"
  by (simp_all add: round_over_def new_round_def Let_def)

section \<open>Sample ticks, evaluated\<close>



lemma landing_eval:
  "rect (p1 (update_fighters (holding []) landing_game)) = mk_rect 500 278 56 98"
  "rect (p2 (update_fighters (holding []) landing_game)) = mk_rect 500 372 56 98"
  apply (simp_all only: update_fighters_def update_def Let_def split_beta)
  apply (simp_all add: landing_game_def eval_defs)
  done

lemma crowd_eval:
  "rect (p1 (update_fighters (holding [K_d]) crowd_game)) = mk_rect 848 372 56 98"
  "rect (p2 (update_fighters (holding [K_d]) crowd_game)) = mk_rect 905 372 56 98"
  apply (simp_all only: update_fighters_def update_def Let_def split_beta)
  apply (simp_all add: crowd_game_def eval_defs)
  done

lemma clash_eval:
  "hp (p1 (handle_hits (update_fighters (holding []) clash_game))) = 0"
  "hp (p2 (handle_hits (update_fighters (holding []) clash_game))) = 0"
  apply (simp_all only: handle_hits_def update_fighters_def update_def Let_def split_beta)
  apply (simp_all add: clash_game_def eval_defs)
  done

lemma ko_eval:
  "hp (p2 (handle_hits (update_fighters (holding []) ko_game))) = 0"
  "hp (p1 (handle_hits (update_fighters (holding []) ko_game))) = 100"
  "attack_timer (p1 (handle_hits (update_fighters (holding []) ko_game))) = 4"
  "hitstop (p1 (handle_hits (update_fighters (holding []) ko_game))) = 4"
  "hitstop (p2 (handle_hits (update_fighters (holding []) ko_game))) = 4"
  "hit_this_attack (p1 (handle_hits (update_fighters (holding []) ko_game)))"
  apply (simp_all only: handle_hits_def update_fighters_def update_def Let_def split_beta)
  apply (simp_all add: ko_game_def eval_defs)
  done

lemma wall_eval:
  "rect (p2 (handle_hits (update_fighters (holding []) wall_game))) = mk_rect 911 372 56 98"
  "hp (p1 (handle_hits (update_fighters (holding []) wall_game))) = 100"
  "hp (p2 (handle_hits (update_fighters (holding []) wall_game))) = 92"
  apply (simp_all only: handle_hits_def update_fighters_def update_def Let_def split_beta)
  apply (simp_all add: wall_game_def eval_defs)
  done

lemma crowd_hits_eval:
  "rect (p2 (handle_hits (update_fighters (holding [K_d]) crowd_game))) = mk_rect 905 372 56 98"
  "hp (p1 (handle_hits (update_fighters (holding [K_d]) crowd_game))) = 100"
  "hp (p2 (handle_hits (update_fighters (holding [K_d]) crowd_game))) = 100"
  apply (simp_all only: handle_hits_def update_fighters_def update_def Let_def split_beta)
  apply (simp_all add: crowd_game_def eval_defs)
  done

section \<open>Round resolution by timeout\<close>


text \<open>
  While the clock runs the match is undecided: every tick keeps "the clock is at 0
  or below, or both counters are below \<open>BEST_OF // 2 + 1\<close>", which holds for a new
  game and after \<^verbatim>\<open>reset_match\<close>.
\<close>

lemma round_over_undecided:
  "round_time (round_over w g) \<le> 0
   \<or> (rounds_won (p1 (round_over w g)) < BEST_OF div 2 + 1
      \<and> rounds_won (p2 (round_over w g)) < BEST_OF div 2 + 1)"
  by (simp add: round_over_def new_round_def Let_def)

lemma timer_check_undecided:
  assumes "rounds_won (p1 g) < BEST_OF div 2 + 1 \<and> rounds_won (p2 g) < BEST_OF div 2 + 1"
  shows "round_time (timer_check dt g) \<le> 0
   \<or> (rounds_won (p1 (timer_check dt g)) < BEST_OF div 2 + 1
      \<and> rounds_won (p2 (timer_check dt g)) < BEST_OF div 2 + 1)"
proof (cases "round_time g - dt \<le> 0")
  case True
  then show ?thesis
    using round_over_undecided [of _ "g\<lparr>round_time := round_time g - dt\<rparr>"]
    by (simp add: timer_check_def Let_def)
next
  case False
  then show ?thesis using assms by (simp add: timer_check_def Let_def)
qed

lemma ko_check_undecided:
  assumes "round_time g \<le> 0
   \<or> (rounds_won (p1 g) < BEST_OF div 2 + 1 \<and> rounds_won (p2 g) < BEST_OF div 2 + 1)"
  shows "round_time (ko_check g) \<le> 0
   \<or> (rounds_won (p1 (ko_check g)) < BEST_OF div 2 + 1
      \<and> rounds_won (p2 (ko_check g)) < BEST_OF div 2 + 1)"
  using assms round_over_undecided [of "Some P2" g] round_over_undecided [of "Some P1" g]
  by (simp add: ko_check_def)

lemma match_undecided_while_clock_runs:
  assumes "round_time g \<le> 0
   \<or> (rounds_won (p1 g) < BEST_OF div 2 + 1 \<and> rounds_won (p2 g) < BEST_OF div 2 + 1)"
  shows "round_time (game_update keys dt g) \<le> 0
   \<or> (rounds_won (p1 (game_update keys dt g)) < BEST_OF div 2 + 1
      \<and> rounds_won (p2 (game_update keys dt g)) < BEST_OF div 2 + 1)"
proof (cases "\<not> paused g \<and> freeze_timer g \<le> 0 \<and> round_time g > 0")
  case False
  then show ?thesis using assms by (auto simp: game_update_def)
next
  case True
  let ?g1 = "handle_hits (update_fighters keys g)"
  from True assms
  have "rounds_won (p1 ?g1) < BEST_OF div 2 + 1 \<and> rounds_won (p2 ?g1) < BEST_OF div 2 + 1"
    by (simp add: frame_handle_hits frame_update_fighters)
  from ko_check_undecided [OF timer_check_undecided [OF this, of dt]] True
  show ?thesis by (simp add: game_update_def)
qed

lemma new_game_undecided:
  "rounds_won (p1 new_game) < BEST_OF div 2 + 1 \<and> rounds_won (p2 new_game) < BEST_OF div 2 + 1"
  "rounds_won (p1 (reset_match g)) < BEST_OF div 2 + 1
   \<and> rounds_won (p2 (reset_match g)) < BEST_OF div 2 + 1"
  "max_hp (p1 new_game) = 100 \<and> max_hp (p2 new_game) = 100"
  by (simp_all add: new_game_def reset_match_def new_fighter_def BEST_OF_def)



section \<open>One hit per attack\<close>






lemma flag_round_over:
  "hit_this_attack (p1 (round_over w g)) = hit_this_attack (p1 g)"
  "hit_this_attack (p2 (round_over w g)) = hit_this_attack (p2 g)"
  by (simp_all add: round_over_def new_round_def Let_def)












section \<open>Overlapping fighters\<close>

lemma colliderect_sym: "colliderect a b = colliderect b a"
  by (auto simp: colliderect_def)

lemma clip_axis_pos:
  "0 < al \<Longrightarrow> 0 < bl \<Longrightarrow>
     clip_axis a al b bl =
       (if max a b < min (a + al) (b + bl)
        then Some (max a b, min (a + al) (b + bl) - max a b) else None)"
  by (auto simp: clip_axis_def Let_def)

lemma clip_pos:
  assumes "0 < rw a" "0 < rh a" "0 < rw b" "0 < rh b"
  shows "rw (clip a b) =
           (if colliderect a b then min (rx a + rw a) (rx b + rw b) - max (rx a) (rx b) else 0)"
    and "rh (clip a b) =
           (if colliderect a b then min (ry a + rh a) (ry b + rh b) - max (ry a) (ry b) else 0)"
  using assms
  by (auto simp: clip_def clip_axis_pos colliderect_def mk_rect_def)

lemma clip_sym:
  assumes "0 < rw a" "0 < rh a" "0 < rw b" "0 < rh b"
  shows "rw (clip a b) = rw (clip b a)" "rh (clip a b) = rh (clip b a)"
  using assms by (auto simp: clip_pos colliderect_sym min.commute max.commute)

lemma rect_move_x:
  "rx (rect (move_x d f)) = rx (rect f) + d" "ry (rect (move_x d f)) = ry (rect f)"
  "rw (rect (move_x d f)) = rw (rect f)" "rh (rect (move_x d f)) = rh (rect f)"
  by (simp_all add: move_x_def)

lemma size_update_push:
  "rw (rect (fst (update_push f opp))) = rw (rect f)" "rh (rect (fst (update_push f opp))) = rh (rect f)"
  "rw (rect (snd (update_push f opp))) = rw (rect opp)" "rh (rect (snd (update_push f opp))) = rh (rect opp)"
  by (simp_all add: update_push_def Let_def rect_move_x)

lemma size_update_move:
  "rw (rect (update_move b f)) = rw (rect f)" "rh (rect (update_move b f)) = rh (rect f)"
  by (simp_all add: update_move_def Let_def set_left_def set_right_def set_bottom_def)

lemma size_update:
  "rw (rect (fst (update keys b f opp))) = rw (rect f)" "rh (rect (fst (update keys b f opp))) = rh (rect f)"
  "rw (rect (snd (update keys b f opp))) = rw (rect opp)" "rh (rect (snd (update keys b f opp))) = rh (rect opp)"
  by (simp_all add: update_def Let_def size_update_push size_update_move frame_steps)

lemma update_push_shift:
  assumes "colliderect (rect f) (rect opp)"
    and "rw (clip (rect f) (rect opp)) < rh (clip (rect f) (rect opp))"
  shows "update_push f opp =
           (if centerx (rect f) < centerx (rect opp)
            then (move_x (- (rw (clip (rect f) (rect opp)) div 2 + 1)) f,
                  move_x (rw (clip (rect f) (rect opp)) div 2 + 1) opp)
            else (move_x (rw (clip (rect f) (rect opp)) div 2 + 1) f,
                  move_x (- (rw (clip (rect f) (rect opp)) div 2 + 1)) opp))"
  using assms by (simp add: update_push_def Let_def)

lemma update_push_separates:
  assumes w: "rw (rect f) = rw (rect opp)" "0 < rw (rect f)"
    and h: "0 < rh (rect f)" "0 < rh (rect opp)"
  shows "\<not> colliderect (rect (fst (update_push f opp))) (rect (snd (update_push f opp)))
         \<or> rh (clip (rect (fst (update_push f opp))) (rect (snd (update_push f opp))))
             \<le> rw (clip (rect (fst (update_push f opp))) (rect (snd (update_push f opp))))"
proof (cases "colliderect (rect f) (rect opp)")
  case False
  then show ?thesis by (simp add: update_push_def)
next
  case True
  show ?thesis
  proof (cases "rw (clip (rect f) (rect opp)) < rh (clip (rect f) (rect opp))")
    case False
    then show ?thesis using True by (simp add: update_push_def Let_def)
  next
    case narrow: True
    define s where "s = rw (clip (rect f) (rect opp)) div 2 + 1"
    have ov: "rw (clip (rect f) (rect opp)) =
                min (rx (rect f) + rw (rect f)) (rx (rect opp) + rw (rect opp))
                - max (rx (rect f)) (rx (rect opp))"
      using True w h by (simp add: clip_pos)
    have s2: "rw (clip (rect f) (rect opp)) < 2 * s"
      unfolding s_def by presburger
    show ?thesis
    proof (cases "centerx (rect f) < centerx (rect opp)")
      case True
      then have lt: "rx (rect f) < rx (rect opp)" using w by (simp add: centerx_def)
      have "\<not> colliderect (rect (move_x (- s) f)) (rect (move_x s opp))"
        using lt w h ov s2 by (auto simp: colliderect_def rect_move_x)
      then show ?thesis
        using True update_push_shift [OF \<open>colliderect (rect f) (rect opp)\<close> narrow]
        by (simp add: s_def)
    next
      case False
      then have ge: "rx (rect opp) \<le> rx (rect f)" using w by (simp add: centerx_def)
      have "\<not> colliderect (rect (move_x s f)) (rect (move_x (- s) opp))"
        using ge w h ov s2 by (auto simp: colliderect_def rect_move_x)
      then show ?thesis
        using False update_push_shift [OF \<open>colliderect (rect f) (rect opp)\<close> narrow]
        by (simp add: s_def)
    qed
  qed
qed

lemma update_separates:
  assumes "hitstop f \<le> 0"
    and w: "rw (rect f) = rw (rect opp)" "0 < rw (rect f)"
    and h: "0 < rh (rect f)" "0 < rh (rect opp)"
  shows "\<not> colliderect (rect (fst (update keys b f opp))) (rect (snd (update keys b f opp)))
         \<or> rh (clip (rect (fst (update keys b f opp))) (rect (snd (update keys b f opp))))
             \<le> rw (clip (rect (fst (update keys b f opp))) (rect (snd (update keys b f opp))))"
proof -
  let ?f9 = "update_move b (apply_gravity (update_cooldown (update_attack_timer
               (update_attacks keys (update_jump keys (update_walk keys
                 (update_stance keys (update_face opp f))))))))"
  have u: "update keys b f opp = update_push ?f9 opp"
    using assms(1) by (simp add: update_def Let_def)
  have s: "rw (rect ?f9) = rw (rect f)" "rh (rect ?f9) = rh (rect f)"
    by (simp_all add: size_update_move frame_steps)
  show ?thesis
    unfolding u
    by (rule update_push_separates) (use w h in \<open>simp_all add: s\<close>)
qed

text \<open>
  Claim C7, as stated, fails: \<^verbatim>\<open>update\<close> pushes the fighters apart only when the
  overlap is narrower than it is tall. When one fighter comes down on the other the
  overlap is wider than tall and nothing is pushed: after both updates of the tick
  the rectangles still overlap (neither fighter is in hitstop).
\<close>

theorem overlap_persists_counterexample:
  "hitstop (p1 landing_game) = 0 \<and> hitstop (p2 landing_game) = 0
   \<and> colliderect (rect (p1 (update_fighters (holding []) landing_game)))
                  (rect (p2 (update_fighters (holding []) landing_game)))"
  by (simp add: landing_eval) (simp add: landing_game_def new_fighter_def colliderect_def mk_rect_def)

text \<open>
  Claim C7, amended. For two fighters of equal positive width and positive height,
  at least one of them not frozen by hitstop: after both updates of a tick the
  rectangles either do not overlap, or overlap in a region at least as wide as it
  is tall. The push itself: when the rectangles overlap in a region narrower than
  tall, \<^verbatim>\<open>update\<close> moves both horizontally by half the overlap's width (rounded
  down) plus one, in opposite directions, away from each other's centres.
\<close>

theorem push_apart_resolution:
  assumes w: "rw (rect (p1 g)) = rw (rect (p2 g))" "0 < rw (rect (p1 g))"
    and h: "0 < rh (rect (p1 g))" "0 < rh (rect (p2 g))"
    and z: "hitstop (p1 g) \<le> 0 \<or> hitstop (p2 g) \<le> 0"
  shows "(\<not> colliderect (rect (p1 (update_fighters keys g))) (rect (p2 (update_fighters keys g)))
          \<or> rh (clip (rect (p1 (update_fighters keys g))) (rect (p2 (update_fighters keys g))))
              \<le> rw (clip (rect (p1 (update_fighters keys g))) (rect (p2 (update_fighters keys g)))))
       \<and> (colliderect (rect f) (rect opp)
            \<and> rw (clip (rect f) (rect opp)) < rh (clip (rect f) (rect opp))
          \<longrightarrow> update_push f opp =
                (if centerx (rect f) < centerx (rect opp)
                 then (move_x (- (rw (clip (rect f) (rect opp)) div 2 + 1)) f,
                       move_x (rw (clip (rect f) (rect opp)) div 2 + 1) opp)
                 else (move_x (rw (clip (rect f) (rect opp)) div 2 + 1) f,
                       move_x (- (rw (clip (rect f) (rect opp)) div 2 + 1)) opp)))"
proof
  let ?u1 = "update keys (bounds g) (p1 g) (p2 g)"
  let ?u2 = "update keys (bounds g) (snd ?u1) (fst ?u1)"
  have g': "p1 (update_fighters keys g) = snd ?u2" "p2 (update_fighters keys g) = fst ?u2"
    by (simp_all add: update_fighters_def Let_def split_beta)
  have s1: "rw (rect (fst ?u1)) = rw (rect (p1 g))" "rh (rect (fst ?u1)) = rh (rect (p1 g))"
    "rw (rect (snd ?u1)) = rw (rect (p2 g))" "rh (rect (snd ?u1)) = rh (rect (p2 g))"
    by (simp_all add: size_update)
  have s2: "rw (rect (fst ?u2)) = rw (rect (p2 g))" "rh (rect (fst ?u2)) = rh (rect (p2 g))"
    "rw (rect (snd ?u2)) = rw (rect (p1 g))" "rh (rect (snd ?u2)) = rh (rect (p1 g))"
    by (simp_all add: size_update)
  have sym: "colliderect (rect (snd ?u2)) (rect (fst ?u2)) = colliderect (rect (fst ?u2)) (rect (snd ?u2))"
    "rw (clip (rect (snd ?u2)) (rect (fst ?u2))) = rw (clip (rect (fst ?u2)) (rect (snd ?u2)))"
    "rh (clip (rect (snd ?u2)) (rect (fst ?u2))) = rh (clip (rect (fst ?u2)) (rect (snd ?u2)))"
    using w h by (simp_all add: colliderect_sym [of "rect (snd ?u2)"] clip_sym [of "rect (snd ?u2)" "rect (fst ?u2)"] s2)
  show "\<not> colliderect (rect (p1 (update_fighters keys g))) (rect (p2 (update_fighters keys g)))
          \<or> rh (clip (rect (p1 (update_fighters keys g))) (rect (p2 (update_fighters keys g))))
              \<le> rw (clip (rect (p1 (update_fighters keys g))) (rect (p2 (update_fighters keys g))))"
  proof (cases "hitstop (p2 g) \<le> 0")
    case True
    then have "hitstop (snd ?u1) \<le> 0" by (simp add: frame_update_opp)
    from update_separates [OF this, of "fst ?u1" keys "bounds g"] w h
    show ?thesis unfolding g' sym by (simp add: s1)
  next
    case False
    with z have z1: "hitstop (p1 g) \<le> 0" by simp
    from False have "0 < hitstop (snd ?u1)" by (simp add: frame_update_opp)
    then have r: "rect (snd ?u2) = rect (fst ?u1)" "rect (fst ?u2) = rect (snd ?u1)"
      by (simp_all add: update_def [of keys "bounds g" "snd ?u1"])
    from update_separates [OF z1 w h, of keys "bounds g"]
    show ?thesis unfolding g' r .
  qed
  show "colliderect (rect f) (rect opp)
            \<and> rw (clip (rect f) (rect opp)) < rh (clip (rect f) (rect opp))
          \<longrightarrow> update_push f opp =
                (if centerx (rect f) < centerx (rect opp)
                 then (move_x (- (rw (clip (rect f) (rect opp)) div 2 + 1)) f,
                       move_x (rw (clip (rect f) (rect opp)) div 2 + 1) opp)
                 else (move_x (rw (clip (rect f) (rect opp)) div 2 + 1) f,
                       move_x (- (rw (clip (rect f) (rect opp)) div 2 + 1)) opp))"
    using update_push_shift [of f opp] by blast
qed

theorem push_apart_resolution_witness:
  "rw (rect (p1 crowd_game)) = rw (rect (p2 crowd_game)) \<and> 0 < rw (rect (p1 crowd_game))
   \<and> 0 < rh (rect (p1 crowd_game)) \<and> 0 < rh (rect (p2 crowd_game))
   \<and> hitstop (p1 crowd_game) \<le> 0
   \<and> \<not> colliderect (rect (p1 (update_fighters (holding [K_d]) crowd_game)))
                     (rect (p2 (update_fighters (holding [K_d]) crowd_game)))
   \<and> colliderect (rect (new_fighter 852 1 P1)) (rect (new_fighter 904 (- 1) P2))
   \<and> rw (clip (rect (new_fighter 852 1 P1)) (rect (new_fighter 904 (- 1) P2))) = 4
   \<and> rh (clip (rect (new_fighter 852 1 P1)) (rect (new_fighter 904 (- 1) P2))) = 98
   \<and> update_push (new_fighter 852 1 P1) (new_fighter 904 (- 1) P2) =
       (move_x (- 3) (new_fighter 852 1 P1), move_x 3 (new_fighter 904 (- 1) P2))"
proof -
  have s: "rw (rect (p1 crowd_game)) = rw (rect (p2 crowd_game))" "0 < rw (rect (p1 crowd_game))"
    "0 < rh (rect (p1 crowd_game))" "0 < rh (rect (p2 crowd_game))"
    and z: "hitstop (p1 crowd_game) \<le> 0"
    by (simp_all add: crowd_game_def new_fighter_def mk_rect_def)
  have z': "hitstop (p1 crowd_game) \<le> 0 \<or> hitstop (p2 crowd_game) \<le> 0" using z by simp
  have n: "\<not> colliderect (rect (p1 (update_fighters (holding [K_d]) crowd_game)))
                     (rect (p2 (update_fighters (holding [K_d]) crowd_game)))"
    by (simp add: crowd_eval) (simp add: colliderect_def mk_rect_def)
  have c: "colliderect (rect (new_fighter 852 1 P1)) (rect (new_fighter 904 (- 1) P2))"
    "rw (clip (rect (new_fighter 852 1 P1)) (rect (new_fighter 904 (- 1) P2))) = 4"
    "rh (clip (rect (new_fighter 852 1 P1)) (rect (new_fighter 904 (- 1) P2))) = 98"
    "centerx (rect (new_fighter 852 1 P1)) < centerx (rect (new_fighter 904 (- 1) P2))"
    by (simp_all add: new_fighter_def rect_defs GROUND_Y_def HEIGHT_def Let_def)
  show ?thesis
    using s z n c
      push_apart_resolution [OF s z', of "holding [K_d]" "new_fighter 852 1 P1" "new_fighter 904 (- 1) P2"]
    by simp
qed

section \<open>Knock-outs and the round reset\<close>

lemma timer_check_running:
  "0 < round_time g - dt \<Longrightarrow> timer_check dt g = g\<lparr>round_time := round_time g - dt\<rparr>"
  by (simp add: timer_check_def Let_def)

lemma game_update_running:
  assumes c: "\<not> paused g" "freeze_timer g \<le> 0" "0 < round_time g"
    and t: "0 < round_time g - dt"
    and g1: "g1 = handle_hits (update_fighters keys g)"
  shows "game_update keys dt g = ko_check (g1\<lparr>round_time := round_time g - dt\<rparr>)"
proof -
  have "round_time g1 = round_time g" by (simp add: g1 frame_game)
  with t have "timer_check dt g1 = g1\<lparr>round_time := round_time g - dt\<rparr>"
    by (simp add: timer_check_running)
  then show ?thesis using c by (simp add: game_update_def g1)
qed

lemma round_over_keeps:
  "attack_timer (p1 (round_over w g)) = attack_timer (p1 g)"
  "attack_timer (p2 (round_over w g)) = attack_timer (p2 g)"
  "attack_cooldown (p1 (round_over w g)) = attack_cooldown (p1 g)"
  "attack_cooldown (p2 (round_over w g)) = attack_cooldown (p2 g)"
  "hitstop (p1 (round_over w g)) = hitstop (p1 g)"
  "hitstop (p2 (round_over w g)) = hitstop (p2 g)"
  by (simp_all add: round_over_def new_round_def Let_def)

text \<open>
  Claim C10. When both fighters have health 0 or less at the KO check of a combat
  tick (the state after the fighters' updates, the hit detection and the timer
  block of that tick), the check takes its first branch, which tests player 1's
  health: the tick ends with \<^verbatim>\<open>round_over("p2")\<close> on that state, player 2's
  counter goes up by one and player 1's counter stays.
\<close>

theorem double_ko_awards_p2:
  assumes c: "\<not> paused g" "freeze_timer g \<le> 0" "0 < round_time g"
    and g2: "g2 = timer_check dt (handle_hits (update_fighters keys g))"
    and h: "hp (p1 g2) \<le> 0" "hp (p2 g2) \<le> 0"
  shows "game_update keys dt g = round_over (Some P2) g2
       \<and> rounds_won (p2 (game_update keys dt g)) = rounds_won (p2 g2) + 1
       \<and> rounds_won (p1 (game_update keys dt g)) = rounds_won (p1 g2)"
proof -
  have "game_update keys dt g = ko_check g2"
    using c by (simp add: game_update_def g2)
  also have "ko_check g2 = round_over (Some P2) g2"
    using h by (simp add: ko_check_def)
  finally show ?thesis by (simp add: round_over_rounds)
qed

theorem double_ko_awards_p2_witness:
  "\<not> paused clash_game \<and> freeze_timer clash_game \<le> 0 \<and> 0 < round_time clash_game
   \<and> hp (p1 (timer_check (1 / 60) (handle_hits (update_fighters (holding []) clash_game)))) \<le> 0
   \<and> hp (p2 (timer_check (1 / 60) (handle_hits (update_fighters (holding []) clash_game)))) \<le> 0
   \<and> rounds_won (p1 clash_game) = 0 \<and> rounds_won (p2 clash_game) = 0
   \<and> rounds_won (p2 (game_update (holding []) (1 / 60) clash_game)) = 1
   \<and> rounds_won (p1 (game_update (holding []) (1 / 60) clash_game)) = 0"
proof -
  let ?g1 = "handle_hits (update_fighters (holding []) clash_game)"
  have c: "\<not> paused clash_game" "freeze_timer clash_game \<le> 0" "0 < round_time clash_game"
    and v: "rounds_won (p1 clash_game) = 0" "rounds_won (p2 clash_game) = 0"
           "round_time clash_game = 60"
    by (simp_all add: clash_game_def new_game_def new_fighter_def ROUND_TIME_def)
  have rt: "0 < round_time ?g1 - 1 / 60"
    by (simp add: frame_game v)
  have tc: "timer_check (1 / 60) ?g1 = ?g1\<lparr>round_time := round_time ?g1 - 1 / 60\<rparr>"
    by (rule timer_check_running [OF rt])
  have h: "hp (p1 (timer_check (1 / 60) ?g1)) \<le> 0" "hp (p2 (timer_check (1 / 60) ?g1)) \<le> 0"
    by (simp_all add: tc clash_eval)
  have r: "rounds_won (p1 (timer_check (1 / 60) ?g1)) = 0"
          "rounds_won (p2 (timer_check (1 / 60) ?g1)) = 0"
    by (simp_all add: tc frame_handle_hits frame_update_fighters v)
  show ?thesis
    using c h v r double_ko_awards_p2 [OF c refl h]
    by (simp add: round_over_rounds)
qed

text \<open>
  Claim C9 asks that a round reset clears the whole attack state. The new-round
  branch of \<^verbatim>\<open>round_over\<close> restores health, position and velocity and clears
  \<^verbatim>\<open>attack_type\<close>, but it assigns neither \<^verbatim>\<open>attack_timer\<close>, \<^verbatim>\<open>attack_cooldown\<close>,
  \<^verbatim>\<open>hitstop\<close> nor \<^verbatim>\<open>hit_this_attack\<close>, which \<^verbatim>\<open>reset_match\<close> does clear by building
  new fighters. The tick below is a knock-out by a punch: the round goes to player
  1, the match goes on, health is back at 100 and the attack kind is cleared, while
  the timer (4), both fighters' hitstop (4) and the hit flag survive into the new
  round.
\<close>

theorem round_reset_keeps_attack_state:
  "attack_timer (p1 ko_game) = 3 \<and> hitstop (p1 ko_game) = 0 \<and> hp (p2 ko_game) = 8
   \<and> rounds_won (p1 (game_update (holding []) (1 / 60) ko_game)) = 1
   \<and> \<not> match_end (game_update (holding []) (1 / 60) ko_game)
   \<and> hp (p2 (game_update (holding []) (1 / 60) ko_game)) = 100
   \<and> attack_type (p1 (game_update (holding []) (1 / 60) ko_game)) = None
   \<and> attack_timer (p1 (game_update (holding []) (1 / 60) ko_game)) = 4
   \<and> hitstop (p1 (game_update (holding []) (1 / 60) ko_game)) = 4
   \<and> hitstop (p2 (game_update (holding []) (1 / 60) ko_game)) = 4
   \<and> hit_this_attack (p1 (game_update (holding []) (1 / 60) ko_game))"
proof -
  let ?g1 = "handle_hits (update_fighters (holding []) ko_game)"
  let ?g2 = "?g1\<lparr>round_time := round_time ko_game - 1 / 60\<rparr>"
  have c: "\<not> paused ko_game" "freeze_timer ko_game \<le> 0" "0 < round_time ko_game"
    and t: "0 < round_time ko_game - 1 / 60"
    and v: "attack_timer (p1 ko_game) = 3" "hitstop (p1 ko_game) = 0" "hp (p2 ko_game) = 8"
      "rounds_won (p1 ko_game) = 0" "rounds_won (p2 ko_game) = 0" "max_hp (p2 ko_game) = 100"
    by (simp_all add: ko_game_def new_game_def new_fighter_def ROUND_TIME_def)
  have r: "rounds_won (p1 ?g1) = 0" "rounds_won (p2 ?g1) = 0" "max_hp (p2 ?g1) = 100"
    by (simp_all add: frame_handle_hits frame_update_fighters v)
  have "game_update (holding []) (1 / 60) ko_game = ko_check ?g2"
    by (rule game_update_running [OF c t refl])
  also have "ko_check ?g2 = round_over (Some P1) ?g2"
    by (simp add: ko_check_def ko_eval)
  finally have gu: "game_update (holding []) (1 / 60) ko_game = round_over (Some P1) ?g2" .
  have f: "\<not> match_end (round_over (Some P1) ?g2)"
    "hp (p2 (round_over (Some P1) ?g2)) = 100"
    "attack_type (p1 (round_over (Some P1) ?g2)) = None"
    using r by (simp_all add: round_over_def new_round_def Let_def BEST_OF_def)
  show ?thesis
    using v f r by (simp add: gu round_over_keeps round_over_rounds flag_round_over ko_eval)
qed

section \<open>The arena's bounds\<close>

text \<open>
  The integration step of \<^verbatim>\<open>update\<close> keeps a fighter that fits into the arena
  inside its horizontal bounds and its feet on or above the ground.
\<close>

lemma update_move_in_bounds:
  assumes "rw (rect f) \<le> rw b"
  shows "left b \<le> left (rect (update_move b f))
       \<and> right (rect (update_move b f)) \<le> right b
       \<and> bottom (rect (update_move b f)) \<le> GROUND_Y"
  using assms
  by (auto simp: update_move_def Let_def left_def right_def bottom_def set_left_def
                 set_right_def set_bottom_def)

text \<open>
  Claim C4 asks the same of every operation that moves a fighter. The pushback of
  \<^verbatim>\<open>receive_hit\<close> and the push-apart step of \<^verbatim>\<open>update\<close> move a rectangle after the
  clamp of the integration step, and nothing clamps it again in that tick. A
  fighter that stands against the right wall (right edge 960) and is punched ends
  the tick with its right edge at 967; one that is walked into ends it at 961.
\<close>

theorem pushed_outside_bounds:
  "right (rect (p2 wall_game)) = 960 \<and> right (bounds wall_game) = 960
   \<and> right (bounds (game_update (holding []) (1 / 60) wall_game)) = 960
   \<and> right (rect (p2 (game_update (holding []) (1 / 60) wall_game))) = 967
   \<and> right (rect (p2 crowd_game)) = 960
   \<and> right (bounds (game_update (holding [K_d]) (1 / 60) crowd_game)) = 960
   \<and> right (rect (p2 (game_update (holding [K_d]) (1 / 60) crowd_game))) = 961"
proof -
  let ?w1 = "handle_hits (update_fighters (holding []) wall_game)"
  let ?c1 = "handle_hits (update_fighters (holding [K_d]) crowd_game)"
  have cw: "\<not> paused wall_game" "freeze_timer wall_game \<le> 0" "0 < round_time wall_game"
    and tw: "0 < round_time wall_game - 1 / 60"
    and cc: "\<not> paused crowd_game" "freeze_timer crowd_game \<le> 0" "0 < round_time crowd_game"
    and tc: "0 < round_time crowd_game - 1 / 60"
    and v: "right (rect (p2 wall_game)) = 960" "right (bounds wall_game) = 960"
      "right (rect (p2 crowd_game)) = 960" "right (bounds crowd_game) = 960"
    by (simp_all add: wall_game_def crowd_game_def new_game_def new_fighter_def ROUND_TIME_def
                      right_def mk_rect_def WIDTH_def)
  have "game_update (holding []) (1 / 60) wall_game
          = ko_check (?w1\<lparr>round_time := round_time wall_game - 1 / 60\<rparr>)"
    by (rule game_update_running [OF cw tw refl])
  then have gw: "game_update (holding []) (1 / 60) wall_game
          = ?w1\<lparr>round_time := round_time wall_game - 1 / 60\<rparr>"
    by (simp add: ko_check_def wall_eval)
  have "game_update (holding [K_d]) (1 / 60) crowd_game
          = ko_check (?c1\<lparr>round_time := round_time crowd_game - 1 / 60\<rparr>)"
    by (rule game_update_running [OF cc tc refl])
  then have gc: "game_update (holding [K_d]) (1 / 60) crowd_game
          = ?c1\<lparr>round_time := round_time crowd_game - 1 / 60\<rparr>"
    by (simp add: ko_check_def crowd_hits_eval)
  show ?thesis
    using v by (simp add: gw gc frame_game wall_eval crowd_hits_eval)
      (simp add: right_def mk_rect_def)
qed

end
